theory Spec2Isabelle
  imports Main "HOL-Library.Multiset"
begin

section \<open>Data model (models.py)\<close>

text \<open>
  A \<open>datetime\<close> is a point on the time line, counted in microseconds; only its order and
  the subtraction of a \<open>timedelta\<close> are used by the code.  The three tables are lists, in
  the order in which a query without \<open>order_by\<close> retrieves the rows.  Field names follow
  models.py; where two models share a column name the device's column is prefixed
  \<open>dev_\<close>, the user's \<open>user_\<close>, and the primary keys are \<open>user_id\<close>, \<open>dev_id\<close> and
  \<open>res_id\<close>.  A reservation object that has not been flushed yet has no primary key
  (\<open>res_id = None\<close>).
\<close>

type_synonym datetime = int

record user =
  user_id :: nat
  user_username :: string
  email_address :: string
  administrator :: bool

record device =
  dev_id :: nat
  device_brand :: string
  dev_device_name :: string
  device_status :: string
  device_type :: string
  last_use :: "datetime option"

record reservation =
  res_id :: "nat option"
  device_id :: nat
  device_name :: string
  username :: string
  start_time :: datetime
  end_time :: datetime
  reason :: string

text \<open>A flashed message with its category, as \<open>flash(message, category=...)\<close> records it.\<close>

type_synonym flash = "string \<times> string"

text \<open>
  What \<open>database.session.commit()\<close> does is decided outside the code: it returns, or it
  raises an exception \<open>e\<close> whose \<open>str(e)\<close> is the given text.  The same holds for the job
  scheduler's \<open>add_job\<close>.
\<close>

datatype outcome = Returns | Raises string

section \<open>helper_functions.py\<close>

subsection \<open>check\_if\_device\_is\_available\<close>

text \<open>
  The loop over the rows of \<open>Reservation.query.filter_by(device_id=device_id)\<close>: a row that
  lies strictly after or strictly before the interval is skipped (\<open>continue\<close>), any other
  row makes the function return \<open>False\<close> at once, and the end of the loop returns \<open>True\<close>.
\<close>

fun scan_reservations :: "reservation list \<Rightarrow> datetime \<Rightarrow> datetime \<Rightarrow> bool" where
  "scan_reservations [] start_t end_t = True"
| "scan_reservations (r # rs) start_t end_t =
     (if start_time r > end_t \<or> end_time r < start_t
      then scan_reservations rs start_t end_t
      else False)"

definition filter_by_device_id :: "reservation list \<Rightarrow> nat \<Rightarrow> reservation list" where
  "filter_by_device_id table d = filter (\<lambda>r. device_id r = d) table"

definition check_if_device_is_available ::
  "reservation list \<Rightarrow> nat \<Rightarrow> datetime \<Rightarrow> datetime \<Rightarrow> bool" where
  "check_if_device_is_available table d start_t end_t =
     scan_reservations (filter_by_device_id table d) start_t end_t"

subsection \<open>check\_start\_and\_end\_time\<close>

text \<open>
  \<open>time_now\<close> is the value that \<open>datetime.now()\<close> returns inside the call; the flashed
  messages are threaded through.
\<close>

definition check_start_and_end_time ::
  "datetime \<Rightarrow> datetime \<Rightarrow> datetime \<Rightarrow> flash list \<Rightarrow> bool \<times> flash list" where
  "check_start_and_end_time time_now start_t end_t fl =
     (if start_t < time_now \<or> end_t < time_now
      then (False, fl @ [(''You cannot schedule a reservation in the past.'', ''error'')])
      else if start_t \<ge> end_t
      then (False, fl @ [(''Start time must be before end time.'', ''error'')])
      else (True, fl))"

subsection \<open>check\_if\_user\_exists\_from\_username, check\_if\_device\_exists\_from\_device\_id\<close>

text \<open>\<open>Model.query.get(id)\<close> and \<open>filter_by(...).first()\<close>: the first matching row, or \<open>None\<close>.\<close>

definition get_device :: "device list \<Rightarrow> nat \<Rightarrow> device option" where
  "get_device table d = find (\<lambda>x. dev_id x = d) table"

definition get_reservation :: "reservation list \<Rightarrow> nat \<Rightarrow> reservation option" where
  "get_reservation table i = find (\<lambda>r. res_id r = Some i) table"

definition check_if_user_exists_from_username :: "user list \<Rightarrow> string \<Rightarrow> bool" where
  "check_if_user_exists_from_username table name =
     (case find (\<lambda>u. user_username u = name) table of None \<Rightarrow> False | Some u \<Rightarrow> True)"

definition check_if_device_exists_from_device_id :: "device list \<Rightarrow> nat \<Rightarrow> bool" where
  "check_if_device_exists_from_device_id table d =
     (case get_device table d of None \<Rightarrow> False | Some x \<Rightarrow> True)"

subsection \<open>check\_availability\_of\_device\_name\<close>

text \<open>
  The function returns \<open>False\<close> or a device's primary key; a caller tests the value with
  \<open>if not device_id\<close>, which also holds of the key \<open>0\<close>.  The name comes from
  \<open>request.form.get\<close> and may be absent (\<open>None\<close>, printed as \<open>None\<close> by the f-string);
  every device of the model has a name, so an absent name matches no device.
\<close>

datatype id_or_false = PyFalse | PyId nat

fun truthy :: "id_or_false \<Rightarrow> bool" where
  "truthy PyFalse = False"
| "truthy (PyId n) = (n \<noteq> 0)"

definition str_opt :: "string option \<Rightarrow> string" where
  "str_opt v = (case v of None \<Rightarrow> ''None'' | Some x \<Rightarrow> x)"

definition filter_by_device_name :: "device list \<Rightarrow> string option \<Rightarrow> device list" where
  "filter_by_device_name table name = filter (\<lambda>d. Some (dev_device_name d) = name) table"

text \<open>The loop \<open>for device in all_devices\<close>, which returns at the first available device.\<close>

fun first_available ::
  "reservation list \<Rightarrow> device list \<Rightarrow> datetime \<Rightarrow> datetime \<Rightarrow> nat option" where
  "first_available rtable [] start_t end_t = None"
| "first_available rtable (d # ds) start_t end_t =
     (if check_if_device_is_available rtable (dev_id d) start_t end_t
      then Some (dev_id d)
      else first_available rtable ds start_t end_t)"

definition check_availability_of_device_name ::
  "device list \<Rightarrow> reservation list \<Rightarrow> string option \<Rightarrow> datetime \<Rightarrow> datetime \<Rightarrow> flash list
   \<Rightarrow> id_or_false \<times> flash list" where
  "check_availability_of_device_name dtable rtable name start_t end_t fl =
     (let all_devices = filter_by_device_name dtable name in
      if all_devices = []
      then (PyFalse, fl @ [(''No devices found with the name '' @ str_opt name @ ''.'', ''error'')])
      else (case first_available rtable all_devices start_t end_t of
              Some i \<Rightarrow> (PyId i, fl)
            | None \<Rightarrow>
                (PyFalse, fl @ [(''No devices are available with the specified name.'', ''error'')])))"

subsection \<open>schedule\_reservation\_notification\<close>

text \<open>
  A job of the scheduler: its id, its run date and the arguments of the call of
  \<open>send_reservation_email\<close> (the recipient and the reservation as it is when the job is
  added).  \<open>add_job\<close> with \<open>replace_existing=True\<close> replaces the job that has the same id and
  adds the job otherwise.
\<close>

record job =
  job_id :: string
  run_date :: datetime
  job_recipient :: string
  job_reservation :: reservation

fun add_job :: "job \<Rightarrow> job list \<Rightarrow> job list" where
  "add_job j [] = [j]"
| "add_job j (k # ks) = (if job_id k = job_id j then j # ks else k # add_job j ks)"

definition timedelta_minutes :: "int \<Rightarrow> int" where
  "timedelta_minutes n = n * 60000000"

text \<open>\<open>str\<close> of a primary key, as the f-string formats it: decimal digits, or \<open>None\<close>.\<close>

fun str_nat :: "nat \<Rightarrow> string" where
  "str_nat n =
     (if n < 10 then [char_of (48 + n)]
      else str_nat (n div 10) @ [char_of (48 + n mod 10)])"

definition str_id :: "nat option \<Rightarrow> string" where
  "str_id v = (case v of None \<Rightarrow> ''None'' | Some n \<Rightarrow> str_nat n)"

datatype error = SchedulerError string | AttributeError

definition schedule_reservation_notification ::
  "outcome \<Rightarrow> user \<Rightarrow> reservation \<Rightarrow> job list \<Rightarrow> error + job list" where
  "schedule_reservation_notification sched current_user r js =
     (let notification_time = start_time r - timedelta_minutes 30;
          jid = ''notify_user_'' @ str_id (res_id r)
      in case sched of
           Raises e \<Rightarrow> Inl (SchedulerError e)
         | Returns \<Rightarrow>
             Inr (add_job \<lparr>job_id = jid, run_date = notification_time,
                           job_recipient = email_address current_user,
                           job_reservation = r\<rparr> js))"

subsection \<open>table\_update\_item, table\_create\_item, table\_delete\_item\<close>

text \<open>
  The state that requests work on: the three committed tables, the jobs of the scheduler
  and the flashed messages.  A request changes rows in its session; \<open>commit\<close> makes the
  session's tables the committed ones, and \<open>rollback\<close> (or the end of a request that has
  not committed) discards them.  The items created and deleted here are reservations.
\<close>

record state =
  users :: "user list"
  devices :: "device list"
  reservations :: "reservation list"
  jobs :: "job list"
  flashes :: "flash list"

definition flash :: "string \<Rightarrow> string \<Rightarrow> state \<Rightarrow> state" where
  "flash message category s = s\<lparr>flashes := flashes s @ [(message, category)]\<rparr>"

text \<open>The primary key that the table gives a new row: one more than the largest in use.\<close>

definition next_res_id :: "reservation list \<Rightarrow> nat" where
  "next_res_id table =
     Suc (fold max (map (\<lambda>r. case res_id r of None \<Rightarrow> 0 | Some n \<Rightarrow> n) table) 0)"

text \<open>
  \<open>committed\<close> is the state as of the last commit, \<open>pending\<close> the state with the changes the
  session holds.
\<close>

definition table_update_item ::
  "outcome \<Rightarrow> string \<Rightarrow> string \<Rightarrow> state \<Rightarrow> state \<Rightarrow> bool \<times> state" where
  "table_update_item commit success_message error_message committed pending =
     (case commit of
        Returns \<Rightarrow> (True, flash success_message ''success'' pending)
      | Raises e \<Rightarrow>
          (False, flash (error_message @ ''  '' @ e) ''error''
                    (committed\<lparr>flashes := flashes pending\<rparr>)))"

definition table_create_item ::
  "outcome \<Rightarrow> reservation \<Rightarrow> string \<Rightarrow> string \<Rightarrow> state \<Rightarrow> bool \<times> state" where
  "table_create_item commit item success_message error_message s =
     (case commit of
        Returns \<Rightarrow>
          (True, flash success_message ''success''
                   (s\<lparr>reservations :=
                        reservations s @ [item\<lparr>res_id := Some (next_res_id (reservations s))\<rparr>]\<rparr>))
      | Raises e \<Rightarrow> (False, flash (error_message @ ''  '' @ e) ''error'' s))"

definition table_delete_item ::
  "outcome \<Rightarrow> reservation \<Rightarrow> string \<Rightarrow> string \<Rightarrow> state \<Rightarrow> bool \<times> state" where
  "table_delete_item commit item success_message error_message s =
     (case commit of
        Returns \<Rightarrow>
          (True, flash success_message ''success''
                   (s\<lparr>reservations := filter (\<lambda>r. res_id r \<noteq> res_id item) (reservations s)\<rparr>))
      | Raises e \<Rightarrow> (False, flash (error_message @ ''  '' @ e) ''error'' s))"

section \<open>Routes\<close>

text \<open>
  A view returns a redirect to an endpoint, a rendered template, or (where the code returns
  the result of \<open>url_for\<close> itself) the text of a URL as the body.  The arguments of a view
  are what it reads from its surroundings: the outcome of the commit and of the scheduler,
  the value of \<open>datetime.now()\<close>, \<open>current_user\<close>, and the fields of the request.  A form
  field is \<open>None\<close> when the form does not have it; a time field holds the value that
  \<open>format_time\<close> parses from it and a key field the number it denotes.
\<close>

datatype response = Redirect string | Render string | Body string

text \<open>A text field counts as given (\<open>if value:\<close>) when it is present and not empty.\<close>

definition given :: "string option \<Rightarrow> bool" where
  "given v = (case v of None \<Rightarrow> False | Some x \<Rightarrow> x \<noteq> [])"

subsection \<open>reservation\_page\_routing.home, the DELETE request\<close>

definition reservation_home_delete ::
  "outcome \<Rightarrow> user \<Rightarrow> nat option \<Rightarrow> state \<Rightarrow> response \<times> state" where
  "reservation_home_delete commit current_user reservation_id s =
     (case (case reservation_id of None \<Rightarrow> None
            | Some i \<Rightarrow> get_reservation (reservations s) i) of
        None \<Rightarrow> (Redirect ''reservation.home'', flash ''Reservation not found.'' ''error'' s)
      | Some reservation \<Rightarrow>
          if administrator current_user \<or> username reservation = user_username current_user
          then (Redirect ''views.home'',
                snd (table_delete_item commit reservation
                       ''Reservation deleted successfully!'' ''Error deleting Reservation:'' s))
          else (Redirect ''views.home'',
                flash ''You do not have permission to delete this reservation.'' ''error'' s))"

subsection \<open>reservation\_page\_routing.create, the POST request\<close>

record create_form =
  cf_device_name :: "string option"
  cf_device_id :: "nat option"
  cf_start_time :: datetime
  cf_end_time :: datetime
  cf_reason :: string

text \<open>
  The part of \<open>create\<close> up to the construction of the reservation: the validation of the
  times and the choice of the device, by its key or by its name.  It ends the request with
  a redirect, or hands on the key of the device.
\<close>

definition create_device_id ::
  "datetime \<Rightarrow> user \<Rightarrow> create_form \<Rightarrow> state \<Rightarrow> (response \<times> state) + (nat \<times> state)" where
  "create_device_id time_now current_user form s =
     (let start_t = cf_start_time form; end_t = cf_end_time form;
          (ok, fl) = check_start_and_end_time time_now start_t end_t (flashes s)
      in if \<not> ok then Inl (Redirect ''reservation.create'', s\<lparr>flashes := fl\<rparr>)
         else (case cf_device_id form of
           Some d \<Rightarrow>
             if \<not> check_if_device_is_available (reservations s) d start_t end_t
             then Inl (Redirect ''reservation.create'',
                       flash ''The selected device is not available at this time.'' ''error'' s)
             else (case get_device (devices s) d of
                     None \<Rightarrow> Inl (Redirect ''reservation.home'',
                                  flash ''Device not found.'' ''error'' s)
                   | Some device \<Rightarrow> Inr (d, s))
         | None \<Rightarrow>
             (let (found, fl') = check_availability_of_device_name (devices s) (reservations s)
                                   (cf_device_name form) start_t end_t (flashes s)
              in case found of
                   PyFalse \<Rightarrow> Inl (Redirect ''reservation.create'', s\<lparr>flashes := fl'\<rparr>)
                 | PyId d \<Rightarrow>
                     if \<not> truthy found
                     then Inl (Redirect ''reservation.create'', s\<lparr>flashes := fl'\<rparr>)
                     else if \<not> check_if_user_exists_from_username (users s)
                                 (user_username current_user)
                     then Inl (Redirect ''reservation.create'',
                               flash ''Username not does exist'' ''error'' (s\<lparr>flashes := fl'\<rparr>))
                     else Inr (d, s\<lparr>flashes := fl'\<rparr>))))"

definition reservation_create ::
  "outcome \<Rightarrow> outcome \<Rightarrow> datetime \<Rightarrow> user \<Rightarrow> create_form \<Rightarrow> state
   \<Rightarrow> error + (response \<times> state)" where
  "reservation_create sched commit time_now current_user form s =
     (case create_device_id time_now current_user form s of
        Inl early \<Rightarrow> Inr early
      | Inr (d, s1) \<Rightarrow>
          (case get_device (devices s1) d of
             None \<Rightarrow> Inl AttributeError
           | Some device \<Rightarrow>
               (let new_reservation =
                      \<lparr>res_id = None, device_id = d, device_name = dev_device_name device,
                       username = user_username current_user,
                       start_time = cf_start_time form, end_time = cf_end_time form,
                       reason = cf_reason form\<rparr>
                in case schedule_reservation_notification sched current_user new_reservation
                          (jobs s1) of
                     Inl e \<Rightarrow> Inl e
                   | Inr js \<Rightarrow>
                       (let (ok, s2) = table_create_item commit new_reservation
                                         ''Reservation created successfully!''
                                         ''Error creating reservation:'' (s1\<lparr>jobs := js\<rparr>)
                        in Inr (Redirect (if ok then ''reservation.home''
                                          else ''reservation.create''), s2)))))"

subsection \<open>reservation\_page\_routing.update, the POST request\<close>

record update_form =
  uf_device_id :: "nat option"
  uf_device_name :: "string option"
  uf_username :: "string option"
  uf_start_time :: "datetime option"
  uf_end_time :: "datetime option"
  uf_reason :: "string option"

text \<open>
  The view changes the fields of the reservation object one after the other and commits at
  the end; where a check fails it returns the text of a URL, and the changes made so far
  are never committed.  The steps below work on the reservation object and the flashed
  messages; \<open>Inl\<close> is such an early return.  A query that runs after a change sees the
  changed row (the session flushes before it queries): \<open>session_table\<close> is the reservation
  table as the session sees it.
\<close>

definition session_table :: "reservation \<Rightarrow> reservation list \<Rightarrow> reservation list" where
  "session_table r table = map (\<lambda>x. if res_id x = res_id r then r else x) table"

definition update_reason :: "update_form \<Rightarrow> reservation \<Rightarrow> reservation" where
  "update_reason form r =
     (if given (uf_reason form) then r\<lparr>reason := the (uf_reason form)\<rparr> else r)"

definition update_username ::
  "user list \<Rightarrow> update_form \<Rightarrow> reservation \<times> flash list
   \<Rightarrow> flash list + reservation \<times> flash list" where
  "update_username utable form rf =
     (case rf of (r, fl) \<Rightarrow>
        if given (uf_username form)
        then (if \<not> check_if_user_exists_from_username utable (the (uf_username form))
              then Inl (fl @ [(''Username does not exist'', ''error'')])
              else Inr (r\<lparr>username := the (uf_username form)\<rparr>, fl))
        else Inr (r, fl))"

definition update_times ::
  "datetime \<Rightarrow> update_form \<Rightarrow> reservation \<times> flash list
   \<Rightarrow> flash list + reservation \<times> flash list" where
  "update_times time_now form rf =
     (case rf of (r, fl) \<Rightarrow>
        (case (uf_start_time form, uf_end_time form) of
           (Some start_t, Some end_t) \<Rightarrow>
             (let (ok, fl') = check_start_and_end_time time_now start_t end_t fl
              in if \<not> ok then Inl fl'
                 else Inr (r\<lparr>start_time := start_t, end_time := end_t\<rparr>, fl'))
         | (Some start_t, None) \<Rightarrow>
             (let (ok, fl') = check_start_and_end_time time_now start_t (end_time r) fl
              in if \<not> ok then Inl fl' else Inr (r\<lparr>start_time := start_t\<rparr>, fl'))
         | (None, Some end_t) \<Rightarrow>
             (let (ok, fl') = check_start_and_end_time time_now (start_time r) end_t fl
              in if \<not> ok then Inl fl' else Inr (r\<lparr>end_time := end_t\<rparr>, fl'))
         | (None, None) \<Rightarrow> Inr (r, fl)))"

text \<open>
  After the times, \<open>start_time\<close> and \<open>end_time\<close> are the given values or else the fields of
  the reservation, that is, in every case the fields the reservation has by then.  The step
  for the device name also replaces the variable \<open>device_id\<close> by what the resolver returns.
\<close>

definition update_device_name ::
  "device list \<Rightarrow> reservation list \<Rightarrow> update_form \<Rightarrow> reservation \<times> flash list
   \<Rightarrow> flash list + (nat option \<times> reservation \<times> flash list)" where
  "update_device_name dtable rtable form rf =
     (case rf of (r, fl) \<Rightarrow>
        if given (uf_device_name form)
        then (let (found, fl') = check_availability_of_device_name dtable (session_table r rtable)
                                   (uf_device_name form) (start_time r) (end_time r) fl
              in case found of
                   PyFalse \<Rightarrow> Inl fl'
                 | PyId d \<Rightarrow>
                     if \<not> truthy found then Inl fl'
                     else Inr (Some d, r\<lparr>device_name := the (uf_device_name form)\<rparr>, fl'))
        else Inr (uf_device_id form, r, fl))"

definition update_device_id ::
  "device list \<Rightarrow> reservation list \<Rightarrow> nat option \<times> reservation \<times> flash list
   \<Rightarrow> flash list + reservation \<times> flash list" where
  "update_device_id dtable rtable drf =
     (case drf of (device_id_var, r, fl) \<Rightarrow>
        (case device_id_var of
           None \<Rightarrow> Inr (r, fl)
         | Some d \<Rightarrow>
             if \<not> check_if_device_exists_from_device_id dtable d
             then Inl (fl @ [(''Device does not exist'', ''error'')])
             else if check_if_device_is_available (session_table r rtable) d
                       (start_time r) (end_time r)
             then Inr (r\<lparr>device_id := d\<rparr>, fl)
             else Inl (fl @ [(''Device is not available for this time'', ''error'')])))"

definition update_fields ::
  "datetime \<Rightarrow> update_form \<Rightarrow> state \<Rightarrow> reservation \<Rightarrow> flash list + reservation \<times> flash list"
  where
  "update_fields time_now form s reservation =
     (case update_username (users s) form (update_reason form reservation, flashes s) of
        Inl fl \<Rightarrow> Inl fl
      | Inr rf1 \<Rightarrow>
          (case update_times time_now form rf1 of
             Inl fl \<Rightarrow> Inl fl
           | Inr rf2 \<Rightarrow>
               (case update_device_name (devices s) (reservations s) form rf2 of
                  Inl fl \<Rightarrow> Inl fl
                | Inr drf \<Rightarrow> update_device_id (devices s) (reservations s) drf)))"

definition reservation_update ::
  "outcome \<Rightarrow> datetime \<Rightarrow> user \<Rightarrow> nat option \<Rightarrow> update_form \<Rightarrow> state \<Rightarrow> response \<times> state"
  where
  "reservation_update commit time_now current_user reservation_id form s =
     (case reservation_id of
        None \<Rightarrow> (Redirect ''reservation.home'', flash ''Reservation ID not provided.'' ''error'' s)
      | Some i \<Rightarrow>
          (case get_reservation (reservations s) i of
             None \<Rightarrow> (Redirect ''reservation.home'', flash ''Reservation not found.'' ''error'' s)
           | Some reservation \<Rightarrow>
               if administrator current_user
               then (case update_fields time_now form s reservation of
                       Inl fl \<Rightarrow> (Body ''reservation.update'', s\<lparr>flashes := fl\<rparr>)
                     | Inr (r, fl) \<Rightarrow>
                         (let (ok, s') = table_update_item commit
                                           ''Reservation updated successfully!''
                                           ''Error updating reservation:'' s
                                           (s\<lparr>reservations := session_table r (reservations s),
                                              flashes := fl\<rparr>)
                          in (Redirect (if ok then ''reservation.home''
                                        else ''reservation.update''), s')))
               else (Render ''update_reservation.html'', s)))"

subsection \<open>device\_page\_routing.see\_availability\<close>

text \<open>
  The query: the reservations of the device that start after now, ordered by start time.
  A slot is the dictionary \<open>{"start": s, "end": e}\<close>, where \<open>e\<close> may be \<open>None\<close>.
\<close>

definition future_reservations :: "reservation list \<Rightarrow> nat \<Rightarrow> datetime \<Rightarrow> reservation list"
  where
  "future_reservations table d time_now =
     sort_key start_time (filter (\<lambda>r. start_time r > time_now) (filter_by_device_id table d))"

type_synonym slot = "datetime \<times> datetime option"

text \<open>One pass of the body of \<open>for i in range(len(reservations) - 1)\<close>.\<close>

definition gap_step :: "reservation list \<Rightarrow> nat \<Rightarrow> slot list \<Rightarrow> slot list" where
  "gap_step rs i slots =
     (let end_of_current_reservation = end_time (rs ! i);
          start_of_next_reservation = start_time (rs ! (i + 1))
      in if end_of_current_reservation < start_of_next_reservation
         then slots @ [(end_of_current_reservation, Some start_of_next_reservation)]
         else slots)"

definition availability_slots :: "datetime \<Rightarrow> reservation list \<Rightarrow> slot list" where
  "availability_slots time_now rs =
     (if rs \<noteq> []
      then (let slots0 = (if time_now < start_time (rs ! 0)
                          then [(time_now, Some (start_time (rs ! 0)))] else []);
                slots1 = fold (gap_step rs) [0..<length rs - 1] slots0
            in slots1 @ [(end_time (last rs), None)])
      else [(time_now, None)])"

text \<open>
  The view redirects when the device is not named or not found; otherwise it renders the
  reservations and the slots.
\<close>

definition see_availability ::
  "datetime \<Rightarrow> nat option \<Rightarrow> state \<Rightarrow> (response \<times> state) + (reservation list \<times> slot list)"
  where
  "see_availability time_now device_id_arg s =
     (case device_id_arg of
        None \<Rightarrow> Inl (Redirect ''device.home'', flash ''Device ID not provided.'' ''error'' s)
      | Some d \<Rightarrow>
          (case get_device (devices s) d of
             None \<Rightarrow> Inl (Redirect ''device.home'', flash ''Device not found.'' ''error'' s)
           | Some device \<Rightarrow>
               (let rs = future_reservations (reservations s) d time_now
                in Inr (rs, availability_slots time_now rs))))"

subsection \<open>device\_page\_routing.update, the POST request\<close>

record device_form =
  df_device_name :: "string option"
  df_device_brand :: "string option"
  df_device_status :: "string option"
  df_device_type :: "string option"
  df_last_use :: "datetime option"

text \<open>
  The loop \<open>for reservation in all_current_device_reservations\<close>: each pass sets the name
  kept in the reservation and the name of the device.  Rows are identified by their
  primary keys.
\<close>

definition set_reservation_device_name ::
  "nat option \<Rightarrow> string \<Rightarrow> reservation list \<Rightarrow> reservation list" where
  "set_reservation_device_name i v table =
     map (\<lambda>r. if res_id r = i then r\<lparr>device_name := v\<rparr> else r) table"

definition set_device_name :: "nat \<Rightarrow> string \<Rightarrow> device list \<Rightarrow> device list" where
  "set_device_name d v table =
     map (\<lambda>x. if dev_id x = d then x\<lparr>dev_device_name := v\<rparr> else x) table"

fun rename_loop :: "string \<Rightarrow> nat \<Rightarrow> reservation list \<Rightarrow> state \<Rightarrow> state" where
  "rename_loop v d [] s = s"
| "rename_loop v d (r # rs) s =
     rename_loop v d rs
       (s\<lparr>reservations := set_reservation_device_name (res_id r) v (reservations s),
          devices := set_device_name d v (devices s)\<rparr>)"

text \<open>
  The loop over \<open>device_fields\<close>: the pass for \<open>device_name\<close> runs the rename loop when a
  name is given; the passes for \<open>device_brand\<close>, \<open>device_status\<close> and \<open>device_type\<close> read
  the field and do nothing with it; the pass for \<open>last_use\<close> flashes a message when the
  time lies in the future and does nothing else.
\<close>

definition device_fields_loop :: "datetime \<Rightarrow> nat \<Rightarrow> device_form \<Rightarrow> state \<Rightarrow> state" where
  "device_fields_loop time_now d form s =
     (let s1 = (if given (df_device_name form)
                then rename_loop (the (df_device_name form)) d
                       (filter_by_device_id (reservations s) d) s
                else s)
      in case df_last_use form of
           None \<Rightarrow> s1
         | Some t \<Rightarrow>
             if t > time_now
             then flash ''The last use of a device can not be in the future'' ''info'' s1
             else s1)"

definition device_update ::
  "outcome \<Rightarrow> datetime \<Rightarrow> user \<Rightarrow> nat option \<Rightarrow> device_form \<Rightarrow> state \<Rightarrow> response \<times> state"
  where
  "device_update commit time_now current_user device_id_arg form s =
     (case device_id_arg of
        None \<Rightarrow> (Redirect ''device.home'', flash ''Device ID not provided.'' ''error'' s)
      | Some d \<Rightarrow>
          (case get_device (devices s) d of
             None \<Rightarrow> (Redirect ''device.home'', flash ''Device not found.'' ''error'' s)
           | Some device \<Rightarrow>
               if administrator current_user
               then (let pending = device_fields_loop time_now d form s;
                         name = (case get_device (devices pending) d of
                                   None \<Rightarrow> dev_device_name device
                                 | Some device' \<Rightarrow> dev_device_name device');
                         (ok, s') = table_update_item commit
                                      (''Device '' @ name @ '' updated successfully!'')
                                      ''Error updating device:'' s pending
                     in (Redirect (if ok then ''device.home'' else ''device.update''), s'))
               else (Redirect ''device.home'', flash ''You are not administrator'' ''error'' s)))"

section \<open>Notions of the specification\<close>

text \<open>
  Two distinct reservations of one device overlap unless one ends strictly before the
  other starts.
\<close>

definition overlapping :: "reservation \<Rightarrow> reservation \<Rightarrow> bool" where
  "overlapping a b \<longleftrightarrow>
     res_id a \<noteq> res_id b \<and> device_id a = device_id b
     \<and> \<not> (end_time a < start_time b \<or> end_time b < start_time a)"

definition has_overlap :: "reservation list \<Rightarrow> bool" where
  "has_overlap table = list_ex (\<lambda>a. list_ex (overlapping a) table) table"

text \<open>
  The gap list as the specification words it: nothing but an open-ended gap from now when
  there is no future reservation; otherwise the leading gap, then the gap of every
  consecutive pair whose first member ends before the second starts, then the open-ended
  gap after the last reservation.
\<close>

fun pair_gaps :: "reservation list \<Rightarrow> slot list" where
  "pair_gaps (a # b # rs) =
     (if end_time a < start_time b then [(end_time a, Some (start_time b))] else [])
     @ pair_gaps (b # rs)"
| "pair_gaps rs = []"

definition compute_gaps :: "datetime \<Rightarrow> reservation list \<Rightarrow> slot list" where
  "compute_gaps time_now rs =
     (case rs of
        [] \<Rightarrow> [(time_now, None)]
      | first # rest \<Rightarrow>
          (if time_now < start_time first then [(time_now, Some (start_time first))] else [])
          @ pair_gaps rs
          @ [(end_time (last rs), None)])"

text \<open>
  An instant lies in a slot or in a reservation read as the half-open interval from its
  start to its end; \<open>occupancy\<close> counts the slots and reservations an instant lies in.
\<close>

fun in_slot :: "datetime \<Rightarrow> slot \<Rightarrow> bool" where
  "in_slot t (a, None) = (a \<le> t)"
| "in_slot t (a, Some b) = (a \<le> t \<and> t < b)"

definition in_reservation :: "datetime \<Rightarrow> reservation \<Rightarrow> bool" where
  "in_reservation t r \<longleftrightarrow> start_time r \<le> t \<and> t < end_time r"

definition occupancy :: "datetime \<Rightarrow> slot list \<Rightarrow> reservation list \<Rightarrow> nat" where
  "occupancy t slots rs =
     length (filter (in_slot t) slots) + length (filter (in_reservation t) rs)"

text \<open>
  A list of reservations in which none ends before it starts and each ends no later than
  the next one starts.
\<close>

fun chained :: "reservation list \<Rightarrow> bool" where
  "chained [] = True"
| "chained [a] = (start_time a \<le> end_time a)"
| "chained (a # b # rs) =
     (start_time a \<le> end_time a \<and> end_time a \<le> start_time b \<and> chained (b # rs))"

section \<open>Scenarios\<close>

text \<open>
  The rows used in the worked examples: two devices of the same name, three users of whom
  \<open>root\<close> is an administrator, and a state with a given reservation table, no jobs and
  no flashed messages.  The examples write an instant of the day as its number of minutes
  (600 for 10:00); only the order of the instants matters in them.
\<close>

definition laptop :: "nat \<Rightarrow> device" where
  "laptop i = \<lparr>dev_id = i, device_brand = ''Dell'', dev_device_name = ''Laptop-A'',
               device_status = ''Active'', device_type = ''Laptop'', last_use = None\<rparr>"

definition member :: "nat \<Rightarrow> string \<Rightarrow> bool \<Rightarrow> user" where
  "member i name admin = \<lparr>user_id = i, user_username = name,
                           email_address = name @ ''@example.org'', administrator = admin\<rparr>"

definition booking :: "nat \<Rightarrow> nat \<Rightarrow> string \<Rightarrow> datetime \<Rightarrow> datetime \<Rightarrow> reservation" where
  "booking i d name start_t end_t =
     \<lparr>res_id = Some i, device_id = d, device_name = ''Laptop-A'', username = name,
      start_time = start_t, end_time = end_t, reason = ''demo''\<rparr>"

definition office :: "reservation list \<Rightarrow> state" where
  "office table =
     \<lparr>users = [member 1 ''alice'' False, member 2 ''bob'' False, member 3 ''root'' True],
      devices = [laptop 1, laptop 2], reservations = table, jobs = [], flashes = []\<rparr>"

text \<open>
  A request to reserve a device by its key, the state that a create request leaves behind
  (an exception leaves the state as it was), and an update form that gives a new start
  time and nothing else.
\<close>

definition request :: "nat \<Rightarrow> datetime \<Rightarrow> datetime \<Rightarrow> create_form" where
  "request d start_t end_t =
     \<lparr>cf_device_name = None, cf_device_id = Some d, cf_start_time = start_t,
      cf_end_time = end_t, cf_reason = ''demo''\<rparr>"

definition state_after :: "error + response \<times> state \<Rightarrow> state \<Rightarrow> state" where
  "state_after result s = (case result of Inl e \<Rightarrow> s | Inr (r, s') \<Rightarrow> s')"

definition move_start :: "datetime \<Rightarrow> update_form" where
  "move_start t = \<lparr>uf_device_id = None, uf_device_name = None, uf_username = None,
                   uf_start_time = Some t, uf_end_time = None, uf_reason = None\<rparr>"

section \<open>Properties\<close>

subsection \<open>Device availability checker\<close>

lemma scan_reservations_all:
  "scan_reservations rs start_t end_t =
     list_all (\<lambda>r. start_time r > end_t \<or> end_time r < start_t) rs"
  by (induction rs) simp_all

lemma scan_reservations_conflict:
  "\<not> (start_time r > end_t \<or> end_time r < start_t) \<Longrightarrow>
   scan_reservations (before @ r # after) start_t end_t = False"
  by (induction before) simp_all

text \<open>
  C2.  The availability check answers \<open>True\<close> exactly when every reservation stored for the
  device starts strictly after the end of the interval or ends strictly before its start.
  A device without reservations is available; the scan answers \<open>False\<close> at the first
  conflicting row whatever rows come after it; and an interval that touches a stored
  reservation at an endpoint is a conflict (both being intervals: neither ends before it
  starts).
\<close>

theorem check_if_device_is_available_iff:
  "(check_if_device_is_available table d start_t end_t \<longleftrightarrow>
      (\<forall>r \<in> set table. device_id r = d \<longrightarrow> start_time r > end_t \<or> end_time r < start_t))
   \<and> (filter_by_device_id table d = [] \<longrightarrow> check_if_device_is_available table d start_t end_t)
   \<and> (\<forall>before r after.
         filter_by_device_id table d = before @ r # after
         \<and> \<not> (start_time r > end_t \<or> end_time r < start_t)
         \<longrightarrow> \<not> check_if_device_is_available table d start_t end_t)
   \<and> (\<forall>r \<in> set table. device_id r = d \<and> start_time r \<le> end_time r \<and> start_t \<le> end_t
         \<and> (end_time r = start_t \<or> start_time r = end_t)
         \<longrightarrow> \<not> check_if_device_is_available table d start_t end_t)"
proof -
  have iff: "check_if_device_is_available table d start_t end_t \<longleftrightarrow>
      (\<forall>r \<in> set table. device_id r = d \<longrightarrow> start_time r > end_t \<or> end_time r < start_t)"
    by (auto simp: check_if_device_is_available_def filter_by_device_id_def
        scan_reservations_all list_all_iff)
  have none: "filter_by_device_id table d = [] \<longrightarrow>
      check_if_device_is_available table d start_t end_t"
    by (simp add: check_if_device_is_available_def)
  have first: "\<forall>before r after.
         filter_by_device_id table d = before @ r # after
         \<and> \<not> (start_time r > end_t \<or> end_time r < start_t)
         \<longrightarrow> \<not> check_if_device_is_available table d start_t end_t"
    using scan_reservations_conflict
    by (simp add: check_if_device_is_available_def)
  have touch: "\<forall>r \<in> set table. device_id r = d \<and> start_time r \<le> end_time r \<and> start_t \<le> end_t
         \<and> (end_time r = start_t \<or> start_time r = end_t)
         \<longrightarrow> \<not> check_if_device_is_available table d start_t end_t"
    unfolding iff by fastforce
  from iff none first touch show ?thesis by blast
qed

text \<open>
  The scenario of the specification, with 600 for 10:00: device 1 is reserved from
  10:00 to 11:00; the requests from 10:30 and from 11:00 are refused, the one from 11:01
  is granted, and device 2, which has no reservation, is free.
\<close>

theorem check_if_device_is_available_iff_witness:
  "\<not> check_if_device_is_available
       [\<lparr>res_id = Some 1, device_id = 1, device_name = ''D'', username = ''u'',
         start_time = 600, end_time = 660, reason = ''r''\<rparr>] 1 630 690
   \<and> \<not> check_if_device_is_available
       [\<lparr>res_id = Some 1, device_id = 1, device_name = ''D'', username = ''u'',
         start_time = 600, end_time = 660, reason = ''r''\<rparr>] 1 660 720
   \<and> check_if_device_is_available
       [\<lparr>res_id = Some 1, device_id = 1, device_name = ''D'', username = ''u'',
         start_time = 600, end_time = 660, reason = ''r''\<rparr>] 1 661 720
   \<and> check_if_device_is_available
       [\<lparr>res_id = Some 1, device_id = 1, device_name = ''D'', username = ''u'',
         start_time = 600, end_time = 660, reason = ''r''\<rparr>] 2 630 690"
  using
    check_if_device_is_available_iff [of
      "[\<lparr>res_id = Some 1, device_id = 1, device_name = ''D'', username = ''u'',
         start_time = 600, end_time = 660, reason = ''r''\<rparr>]" 1 630 690]
    check_if_device_is_available_iff [of
      "[\<lparr>res_id = Some 1, device_id = 1, device_name = ''D'', username = ''u'',
         start_time = 600, end_time = 660, reason = ''r''\<rparr>]" 1 660 720]
    check_if_device_is_available_iff [of
      "[\<lparr>res_id = Some 1, device_id = 1, device_name = ''D'', username = ''u'',
         start_time = 600, end_time = 660, reason = ''r''\<rparr>]" 1 661 720]
    check_if_device_is_available_iff [of
      "[\<lparr>res_id = Some 1, device_id = 1, device_name = ''D'', username = ''u'',
         start_time = 600, end_time = 660, reason = ''r''\<rparr>]" 2 630 690]
  by (simp add: filter_by_device_id_def)

subsection \<open>Time interval validator\<close>

text \<open>
  C5.  The validator refuses exactly when the start or the end lies before now or the
  start is not before the end.  A past interval is refused with the past-interval message
  (also when its start is not before its end), any other interval whose start is not before
  its end with the ordering message, and an accepted interval flashes nothing.  Validating
  the same times at the same instant a second time, after the messages of the first run,
  gives the same verdict.
\<close>

theorem check_start_and_end_time_verdict:
  "(\<not> fst (check_start_and_end_time time_now start_t end_t fl) \<longleftrightarrow>
      start_t < time_now \<or> end_t < time_now \<or> start_t \<ge> end_t)
   \<and> snd (check_start_and_end_time time_now start_t end_t fl) =
       fl @ (if start_t < time_now \<or> end_t < time_now
             then [(''You cannot schedule a reservation in the past.'', ''error'')]
             else if start_t \<ge> end_t
             then [(''Start time must be before end time.'', ''error'')]
             else [])
   \<and> fst (check_start_and_end_time time_now start_t end_t
            (snd (check_start_and_end_time time_now start_t end_t fl))) =
       fst (check_start_and_end_time time_now start_t end_t fl)"
  by (simp add: check_start_and_end_time_def)

subsection \<open>Availability gap computer\<close>

lemma upt_first: "[k ..< k + Suc n] = k # [Suc k ..< Suc k + n]"
  using upt_conv_Cons [of k "k + Suc n"] by simp

text \<open>The loop over the indices appends the gaps of the consecutive pairs, in order.\<close>

lemma fold_gap_step:
  "fold (gap_step (pre @ rs)) [length pre ..< length pre + (length rs - 1)] acc
     = acc @ pair_gaps rs"
proof (induction rs arbitrary: pre acc rule: pair_gaps.induct)
  case (1 a b rs)
  have step: "gap_step (pre @ a # b # rs) (length pre) acc
        = acc @ (if end_time a < start_time b then [(end_time a, Some (start_time b))] else [])"
    by (simp add: gap_step_def nth_append)
  have "fold (gap_step ((pre @ [a]) @ b # rs))
          [length (pre @ [a]) ..< length (pre @ [a]) + (length (b # rs) - 1)]
          (gap_step (pre @ a # b # rs) (length pre) acc)
        = gap_step (pre @ a # b # rs) (length pre) acc @ pair_gaps (b # rs)"
    by (rule "1.IH")
  then have rest: "fold (gap_step (pre @ a # b # rs))
          [Suc (length pre) ..< Suc (length pre) + length rs]
          (gap_step (pre @ a # b # rs) (length pre) acc)
        = gap_step (pre @ a # b # rs) (length pre) acc @ pair_gaps (b # rs)"
    by simp
  have "[length pre ..< length pre + (length (a # b # rs) - 1)]
        = length pre # [Suc (length pre) ..< Suc (length pre) + length rs]"
    using upt_first [of "length pre" "length rs"] by simp
  then show ?case using rest step by simp
qed simp_all

lemma availability_slots_compute_gaps:
  "availability_slots time_now rs = compute_gaps time_now rs"
proof (cases rs)
  case Nil
  then show ?thesis by (simp add: availability_slots_def compute_gaps_def)
next
  case (Cons a as)
  have "fold (gap_step rs) [0..<length rs - 1] acc = acc @ pair_gaps rs" for acc
    using fold_gap_step [of "[]" rs acc] by simp
  then show ?thesis using Cons
    by (simp add: availability_slots_def compute_gaps_def Let_def)
qed

text \<open>
  C4.  For a device that exists, the view returns the reservations of the device that start
  after now, in ascending order of start time, together with exactly the gap list of the
  specification for them (\<open>compute_gaps\<close>): the single open-ended gap from now when there
  are none; otherwise the leading gap up to the first start when now lies before it, the
  gap of every consecutive pair whose first member ends before the second starts, and the
  open-ended gap after the last end.
\<close>

theorem see_availability_compute_gaps:
  assumes "get_device (devices s) d = Some device"
  shows "see_availability time_now (Some d) s =
           Inr (future_reservations (reservations s) d time_now,
                compute_gaps time_now (future_reservations (reservations s) d time_now))
         \<and> sorted (map start_time (future_reservations (reservations s) d time_now))
         \<and> mset (future_reservations (reservations s) d time_now) =
             mset (filter (\<lambda>r. device_id r = d \<and> time_now < start_time r) (reservations s))"
  using assms
  by (simp add: see_availability_def availability_slots_compute_gaps future_reservations_def
      filter_by_device_id_def conj_commute Let_def)

text \<open>
  The scenario of the specification at 09:00 (the instant 540): with the back-to-back
  reservations 10:00 to 11:00 and 11:00 to 12:00 the gaps are 09:00 to 10:00 and 12:00
  onwards.
\<close>

theorem see_availability_compute_gaps_witness:
  "get_device (devices (office [booking 1 1 ''alice'' 600 660, booking 2 1 ''bob'' 660 720])) 1
     = Some (laptop 1)
   \<and> see_availability 540 (Some 1)
       (office [booking 1 1 ''alice'' 600 660, booking 2 1 ''bob'' 660 720])
     = Inr ([booking 1 1 ''alice'' 600 660, booking 2 1 ''bob'' 660 720],
            [(540, Some 600), (720, None)])"
  using see_availability_compute_gaps
    [of "office [booking 1 1 ''alice'' 600 660, booking 2 1 ''bob'' 660 720]" 1 "laptop 1" 540]
  by (simp add: office_def get_device_def laptop_def booking_def future_reservations_def
      filter_by_device_id_def compute_gaps_def)

lemma in_future_reservations:
  "r \<in> set (future_reservations table d time_now) \<Longrightarrow> time_now < start_time r"
  by (simp add: future_reservations_def)

lemma occupancy_Cons:
  "occupancy t (g # slots) rs = (if in_slot t g then 1 else 0) + occupancy t slots rs"
  by (simp add: occupancy_def)

text \<open>
  From the first start onwards, the reservations of a chain and the gaps after them hold
  every instant exactly once, and no instant before.
\<close>

lemma occupancy_chain:
  "chained rs \<Longrightarrow> rs \<noteq> [] \<Longrightarrow>
   occupancy t (pair_gaps rs @ [(end_time (last rs), None)]) rs
     = (if start_time (hd rs) \<le> t then 1 else 0)"
proof (induction rs rule: chained.induct)
  case 1
  then show ?case by simp
next
  case (2 a)
  then show ?case by (auto simp: occupancy_def in_reservation_def)
next
  case (3 a b rs)
  then have ih: "occupancy t (pair_gaps (b # rs) @ [(end_time (last (b # rs)), None)]) (b # rs)
     = (if start_time b \<le> t then 1 else 0)" by simp
  from "3.prems" have ord: "start_time a \<le> end_time a" "end_time a \<le> start_time b" by simp_all
  show ?case using ih ord
    by (auto simp: occupancy_def in_reservation_def split: if_splits)
qed

lemma occupancy_slots:
  assumes "chained rs" and "\<forall>r \<in> set rs. time_now < start_time r"
  shows "occupancy t (availability_slots time_now rs) rs = (if time_now \<le> t then 1 else 0)"
proof (cases rs)
  case Nil
  then show ?thesis by (simp add: availability_slots_compute_gaps compute_gaps_def occupancy_def)
next
  case (Cons a as)
  then have ne: "rs \<noteq> []" and first: "time_now < start_time a" and hd: "hd rs = a"
    using assms(2) by simp_all
  have rest: "occupancy t (pair_gaps rs @ [(end_time (last rs), None)]) rs
     = (if start_time a \<le> t then 1 else 0)"
    using occupancy_chain [OF assms(1) ne] hd by simp
  have "availability_slots time_now rs =
          (time_now, Some (start_time a)) # (pair_gaps rs @ [(end_time (last rs), None)])"
    using first Cons by (simp add: availability_slots_compute_gaps compute_gaps_def)
  then show ?thesis using first rest by (simp add: occupancy_Cons)
qed

text \<open>
  C3, as the claim states it, fails.  A reservation from 5 to 15 is in progress at 10; the
  view leaves it out and returns the single gap from 10 onwards, so the instant 12 lies
  both in that gap and in the reservation of the device.
\<close>

theorem see_availability_in_progress_counterexample:
  "see_availability 10 (Some 1) (office [booking 1 1 ''alice'' 5 15]) = Inr ([], [(10, None)])
   \<and> occupancy 12 [(10, None)] (filter_by_device_id [booking 1 1 ''alice'' 5 15] 1) = 2"
  by (simp add: see_availability_def office_def get_device_def laptop_def booking_def
      future_reservations_def filter_by_device_id_def availability_slots_def occupancy_def
      in_reservation_def)

text \<open>
  C3, amended.  The gap list is computed from the reservations of the device that start
  after now, and those are what the view returns with it.  When they form a chain in their
  order (none ends before it starts, each ends no later than the next starts), the gaps and
  these reservations, read as half-open intervals, hold every instant from now onwards
  exactly once and no earlier instant.  Reservations in progress at now or in the past take
  no part.
\<close>

theorem see_availability_cover:
  assumes "see_availability time_now device_id_arg s = Inr (rs, slots)" and "chained rs"
  shows "occupancy t slots rs = (if time_now \<le> t then 1 else 0)"
proof -
  from assms(1) obtain d where rs: "rs = future_reservations (reservations s) d time_now"
    and slots: "slots = availability_slots time_now rs"
    by (auto simp: see_availability_def Let_def split: option.splits)
  have "\<forall>r \<in> set rs. time_now < start_time r" using rs in_future_reservations by blast
  then show ?thesis using occupancy_slots [OF assms(2)] slots by simp
qed

theorem see_availability_cover_witness:
  "see_availability 540 (Some 1)
       (office [booking 2 1 ''bob'' 700 720, booking 1 1 ''alice'' 600 660, booking 3 1 ''bob'' 5 15])
     = Inr ([booking 1 1 ''alice'' 600 660, booking 2 1 ''bob'' 700 720],
            [(540, Some 600), (660, Some 700), (720, None)])
   \<and> chained [booking 1 1 ''alice'' 600 660, booking 2 1 ''bob'' 700 720]
   \<and> occupancy 680 [(540, Some 600), (660, Some 700), (720, None)]
       [booking 1 1 ''alice'' 600 660, booking 2 1 ''bob'' 700 720] = 1
   \<and> occupancy 500 [(540, Some 600), (660, Some 700), (720, None)]
       [booking 1 1 ''alice'' 600 660, booking 2 1 ''bob'' 700 720] = 0"
proof -
  have run: "see_availability 540 (Some 1)
       (office [booking 2 1 ''bob'' 700 720, booking 1 1 ''alice'' 600 660, booking 3 1 ''bob'' 5 15])
     = Inr ([booking 1 1 ''alice'' 600 660, booking 2 1 ''bob'' 700 720],
            [(540, Some 600), (660, Some 700), (720, None)])"
    by (simp add: see_availability_def office_def get_device_def laptop_def booking_def
        future_reservations_def filter_by_device_id_def availability_slots_compute_gaps
        compute_gaps_def)
  have chain: "chained [booking 1 1 ''alice'' 600 660, booking 2 1 ''bob'' 700 720]"
    by (simp add: booking_def)
  show ?thesis
    using run chain see_availability_cover [OF run chain, of 680]
      see_availability_cover [OF run chain, of 500]
    by simp
qed

subsection \<open>Device resolver\<close>

lemma first_available_split:
  "\<forall>x \<in> set before. \<not> check_if_device_is_available rtable (dev_id x) start_t end_t \<Longrightarrow>
   check_if_device_is_available rtable (dev_id d) start_t end_t \<Longrightarrow>
   first_available rtable (before @ d # after) start_t end_t = Some (dev_id d)"
  by (induction before) simp_all

lemma first_available_none:
  "\<forall>x \<in> set ds. \<not> check_if_device_is_available rtable (dev_id x) start_t end_t \<Longrightarrow>
   first_available rtable ds start_t end_t = None"
  by (induction ds) simp_all

lemma first_available_in:
  "first_available rtable ds start_t end_t = Some i \<Longrightarrow> \<exists>x \<in> set ds. dev_id x = i"
  by (induction ds) (auto split: if_splits)

text \<open>
  C6, as the claim states it, fails.  No device is called Laptop-B, and both devices
  called Laptop-A are reserved at the time asked for; the resolver returns \<open>False\<close> in
  the one case as in the other, so the value the caller receives does not tell the two
  failures apart.
\<close>

theorem check_availability_of_device_name_same_value_counterexample:
  "filter_by_device_name [laptop 1, laptop 2] (Some ''Laptop-B'') = []
   \<and> filter_by_device_name [laptop 1, laptop 2] (Some ''Laptop-A'') = [laptop 1, laptop 2]
   \<and> fst (check_availability_of_device_name [laptop 1, laptop 2]
            [booking 1 1 ''alice'' 840 900, booking 2 2 ''bob'' 800 850]
            (Some ''Laptop-B'') 840 900 []) = PyFalse
   \<and> fst (check_availability_of_device_name [laptop 1, laptop 2]
            [booking 1 1 ''alice'' 840 900, booking 2 2 ''bob'' 800 850]
            (Some ''Laptop-A'') 840 900 []) = PyFalse"
  by (simp add: filter_by_device_name_def laptop_def booking_def
      check_if_device_is_available_def filter_by_device_id_def
      check_availability_of_device_name_def)

text \<open>
  C6, amended.  The resolver looks at the devices that have the given name, in retrieval
  order.  When there is none it returns \<open>False\<close> and flashes that no device of that name
  was found.  Otherwise it returns the key of the first of them that the availability
  check reports available, and flashes nothing; when none of them is available it returns
  \<open>False\<close> and flashes that no device of that name is available.  The two failures give
  the caller the same value; what differs is the message that the resolver itself flashes.
\<close>

theorem check_availability_of_device_name_result:
  "(filter_by_device_name dtable name = [] \<longrightarrow>
      check_availability_of_device_name dtable rtable name start_t end_t fl =
        (PyFalse, fl @ [(''No devices found with the name '' @ str_opt name @ ''.'', ''error'')]))
   \<and> (\<forall>before d after.
        filter_by_device_name dtable name = before @ d # after
        \<and> (\<forall>x \<in> set before. \<not> check_if_device_is_available rtable (dev_id x) start_t end_t)
        \<and> check_if_device_is_available rtable (dev_id d) start_t end_t
        \<longrightarrow> check_availability_of_device_name dtable rtable name start_t end_t fl
             = (PyId (dev_id d), fl))
   \<and> (filter_by_device_name dtable name \<noteq> []
        \<and> (\<forall>x \<in> set (filter_by_device_name dtable name).
              \<not> check_if_device_is_available rtable (dev_id x) start_t end_t)
        \<longrightarrow> check_availability_of_device_name dtable rtable name start_t end_t fl =
             (PyFalse, fl @ [(''No devices are available with the specified name.'', ''error'')]))
   \<and> (filter_by_device_name dtable name = [] \<and> filter_by_device_name dtable' name' \<noteq> []
        \<and> (\<forall>x \<in> set (filter_by_device_name dtable' name').
              \<not> check_if_device_is_available rtable' (dev_id x) start_t' end_t')
        \<longrightarrow> fst (check_availability_of_device_name dtable rtable name start_t end_t fl)
            = fst (check_availability_of_device_name dtable' rtable' name' start_t' end_t' fl)
          \<and> snd (check_availability_of_device_name dtable rtable name start_t end_t fl)
            \<noteq> snd (check_availability_of_device_name dtable' rtable' name' start_t' end_t' fl))"
proof -
  have nf: "filter_by_device_name dtable name = [] \<longrightarrow>
      check_availability_of_device_name dtable rtable name start_t end_t fl =
        (PyFalse, fl @ [(''No devices found with the name '' @ str_opt name @ ''.'', ''error'')])"
    by (simp add: check_availability_of_device_name_def)
  have ok: "\<forall>before d after.
        filter_by_device_name dtable name = before @ d # after
        \<and> (\<forall>x \<in> set before. \<not> check_if_device_is_available rtable (dev_id x) start_t end_t)
        \<and> check_if_device_is_available rtable (dev_id d) start_t end_t
        \<longrightarrow> check_availability_of_device_name dtable rtable name start_t end_t fl
             = (PyId (dev_id d), fl)"
    by (simp add: check_availability_of_device_name_def first_available_split)
  have na: "filter_by_device_name dtable name \<noteq> []
        \<and> (\<forall>x \<in> set (filter_by_device_name dtable name).
              \<not> check_if_device_is_available rtable (dev_id x) start_t end_t)
        \<longrightarrow> check_availability_of_device_name dtable rtable name start_t end_t fl =
             (PyFalse, fl @ [(''No devices are available with the specified name.'', ''error'')])"
    by (simp add: check_availability_of_device_name_def first_available_none)
  have same: "filter_by_device_name dtable name = [] \<and> filter_by_device_name dtable' name' \<noteq> []
        \<and> (\<forall>x \<in> set (filter_by_device_name dtable' name').
              \<not> check_if_device_is_available rtable' (dev_id x) start_t' end_t')
        \<longrightarrow> fst (check_availability_of_device_name dtable rtable name start_t end_t fl)
            = fst (check_availability_of_device_name dtable' rtable' name' start_t' end_t' fl)
          \<and> snd (check_availability_of_device_name dtable rtable name start_t end_t fl)
            \<noteq> snd (check_availability_of_device_name dtable' rtable' name' start_t' end_t' fl)"
    by (simp add: check_availability_of_device_name_def first_available_none)
  from nf ok na same show ?thesis by blast
qed

text \<open>
  The scenario of the specification: two devices are called Laptop-A, device 1 is reserved
  from 14:00 to 15:00 and device 2 is free, so the resolver returns 2.  When both are
  reserved no device is available, and no device is called Laptop-B; the value is \<open>False\<close>
  both times and the messages differ.
\<close>

theorem check_availability_of_device_name_result_witness:
  "check_availability_of_device_name [laptop 1, laptop 2] [booking 1 1 ''alice'' 840 900]
       (Some ''Laptop-A'') 840 900 [] = (PyId 2, [])
   \<and> check_availability_of_device_name [laptop 1, laptop 2]
       [booking 1 1 ''alice'' 840 900, booking 2 2 ''bob'' 800 850]
       (Some ''Laptop-A'') 840 900 []
       = (PyFalse, [(''No devices are available with the specified name.'', ''error'')])
   \<and> check_availability_of_device_name [laptop 1, laptop 2] [booking 1 1 ''alice'' 840 900]
       (Some ''Laptop-B'') 840 900 []
       = (PyFalse, [(''No devices found with the name Laptop-B.'', ''error'')])
   \<and> snd (check_availability_of_device_name [laptop 1, laptop 2] [booking 1 1 ''alice'' 840 900]
       (Some ''Laptop-B'') 840 900 [])
     \<noteq> snd (check_availability_of_device_name [laptop 1, laptop 2]
       [booking 1 1 ''alice'' 840 900, booking 2 2 ''bob'' 800 850]
       (Some ''Laptop-A'') 840 900 [])"
  using
    check_availability_of_device_name_result
      [of "[laptop 1, laptop 2]" "Some ''Laptop-A''" "[booking 1 1 ''alice'' 840 900]" 840 900 "[]"]
    check_availability_of_device_name_result
      [of "[laptop 1, laptop 2]" "Some ''Laptop-A''"
          "[booking 1 1 ''alice'' 840 900, booking 2 2 ''bob'' 800 850]" 840 900 "[]"]
    check_availability_of_device_name_result
      [of "[laptop 1, laptop 2]" "Some ''Laptop-B''" "[booking 1 1 ''alice'' 840 900]" 840 900 "[]"
          "[laptop 1, laptop 2]" "Some ''Laptop-A''"
          "[booking 1 1 ''alice'' 840 900, booking 2 2 ''bob'' 800 850]" 840 900]
  by (simp add: filter_by_device_name_def laptop_def booking_def str_opt_def
      check_if_device_is_available_def filter_by_device_id_def
      check_availability_of_device_name_def)

subsection \<open>Deleting a reservation\<close>

lemma get_reservation_filtered:
  "get_reservation (filter (\<lambda>x. res_id x \<noteq> Some i) table) i = None"
  by (simp add: get_reservation_def find_None_iff)

lemma get_reservation_res_id:
  "get_reservation table i = Some r \<Longrightarrow> res_id r = Some i"
  by (auto simp: get_reservation_def find_Some_iff)

text \<open>
  C9.  For a delete request on an existing reservation: a user who is neither an
  administrator nor the owner gets the permission message, and the tables and the jobs
  stay as they are, whatever the commit would have done.  For an administrator or the
  owner the row is deleted when the commit returns, and when the commit raises the
  deletion is rolled back and the error is flashed.  So, with a commit that returns, the
  reservation is gone afterwards exactly when the user is an administrator or the owner.
\<close>

theorem reservation_home_delete_permission:
  assumes "get_reservation (reservations s) i = Some r"
  shows
  "(\<not> (administrator current_user \<or> username r = user_username current_user) \<longrightarrow>
      reservation_home_delete commit current_user (Some i) s =
        (Redirect ''views.home'',
         s\<lparr>flashes := flashes s
              @ [(''You do not have permission to delete this reservation.'', ''error'')]\<rparr>))
   \<and> (administrator current_user \<or> username r = user_username current_user \<longrightarrow>
      reservation_home_delete Returns current_user (Some i) s =
        (Redirect ''views.home'',
         s\<lparr>reservations := filter (\<lambda>x. res_id x \<noteq> Some i) (reservations s),
           flashes := flashes s @ [(''Reservation deleted successfully!'', ''success'')]\<rparr>)
      \<and> reservation_home_delete (Raises e) current_user (Some i) s =
        (Redirect ''views.home'',
         s\<lparr>flashes := flashes s @ [(''Error deleting Reservation:  '' @ e, ''error'')]\<rparr>))
   \<and> (get_reservation
         (reservations (snd (reservation_home_delete Returns current_user (Some i) s))) i = None
      \<longleftrightarrow> administrator current_user \<or> username r = user_username current_user)"
proof -
  have rid: "res_id r = Some i" using assms by (rule get_reservation_res_id)
  have a: "\<not> (administrator current_user \<or> username r = user_username current_user) \<longrightarrow>
      reservation_home_delete commit current_user (Some i) s =
        (Redirect ''views.home'',
         s\<lparr>flashes := flashes s
              @ [(''You do not have permission to delete this reservation.'', ''error'')]\<rparr>)"
    for commit
    using assms by (simp add: reservation_home_delete_def flash_def)
  have b: "administrator current_user \<or> username r = user_username current_user \<longrightarrow>
      reservation_home_delete Returns current_user (Some i) s =
        (Redirect ''views.home'',
         s\<lparr>reservations := filter (\<lambda>x. res_id x \<noteq> Some i) (reservations s),
           flashes := flashes s @ [(''Reservation deleted successfully!'', ''success'')]\<rparr>)
      \<and> reservation_home_delete (Raises e) current_user (Some i) s =
        (Redirect ''views.home'',
         s\<lparr>flashes := flashes s @ [(''Error deleting Reservation:  '' @ e, ''error'')]\<rparr>)"
    using assms rid by (simp add: reservation_home_delete_def table_delete_item_def flash_def)
  have c: "get_reservation
         (reservations (snd (reservation_home_delete Returns current_user (Some i) s))) i = None
      \<longleftrightarrow> administrator current_user \<or> username r = user_username current_user"
  proof (cases "administrator current_user \<or> username r = user_username current_user")
    case True
    then show ?thesis using b by (simp add: get_reservation_filtered)
  next
    case False
    then show ?thesis using a [of Returns] assms by simp
  qed
  from a b c show ?thesis by blast
qed

text \<open>
  Alice's reservation: Bob is refused and nothing changes but the flashed message; Alice
  herself and the administrator delete it.
\<close>

theorem reservation_home_delete_permission_witness:
  "get_reservation (reservations (office [booking 1 1 ''alice'' 600 660])) 1
     = Some (booking 1 1 ''alice'' 600 660)
   \<and> reservation_home_delete Returns (member 2 ''bob'' False) (Some 1)
       (office [booking 1 1 ''alice'' 600 660])
     = (Redirect ''views.home'',
        (office [booking 1 1 ''alice'' 600 660])
          \<lparr>flashes := [(''You do not have permission to delete this reservation.'', ''error'')]\<rparr>)
   \<and> reservations (snd (reservation_home_delete Returns (member 1 ''alice'' False) (Some 1)
       (office [booking 1 1 ''alice'' 600 660]))) = []
   \<and> reservations (snd (reservation_home_delete Returns (member 3 ''root'' True) (Some 1)
       (office [booking 1 1 ''alice'' 600 660]))) = []"
proof -
  have found: "get_reservation (reservations (office [booking 1 1 ''alice'' 600 660])) 1
     = Some (booking 1 1 ''alice'' 600 660)"
    by (simp add: office_def get_reservation_def booking_def)
  show ?thesis
    using found
      reservation_home_delete_permission [OF found, of "member 2 ''bob'' False" Returns]
      reservation_home_delete_permission [OF found, of "member 1 ''alice'' False" Returns]
      reservation_home_delete_permission [OF found, of "member 3 ''root'' True" Returns]
    by (simp add: member_def booking_def office_def)
qed

subsection \<open>Renaming a device\<close>

lemma set_device_name_idem:
  "set_device_name d v (set_device_name d v table) = set_device_name d v table"
  by (simp add: set_device_name_def comp_def cong: map_cong)

lemma rename_loop_devices:
  "devices (rename_loop v d rs s) =
     (if rs = [] then devices s else set_device_name d v (devices s))"
  by (induction rs arbitrary: s) (simp_all add: set_device_name_idem)

lemma rename_loop_reservations:
  "reservations (rename_loop v d rs s) =
     map (\<lambda>x. if res_id x \<in> res_id ` set rs then x\<lparr>device_name := v\<rparr> else x) (reservations s)"
proof (induction rs arbitrary: s)
  case Nil
  then show ?case by simp
next
  case (Cons r rs)
  show ?case
    by (simp add: Cons.IH set_reservation_device_name_def comp_def cong: map_cong)
qed

lemma rename_loop_rest:
  "users (rename_loop v d rs s) = users s \<and> jobs (rename_loop v d rs s) = jobs s
   \<and> flashes (rename_loop v d rs s) = flashes s"
  by (induction rs arbitrary: s) simp_all

lemma same_key_same_device:
  assumes "distinct (map res_id table)" and "x \<in> set table"
  shows "res_id x \<in> res_id ` set (filter_by_device_id table d) \<longleftrightarrow> device_id x = d"
proof
  assume "res_id x \<in> res_id ` set (filter_by_device_id table d)"
  then obtain y where y: "y \<in> set table" "device_id y = d" "res_id y = res_id x"
    by (auto simp: filter_by_device_id_def)
  from assms(1) have "inj_on res_id (set table)" by (simp add: distinct_map)
  with y assms(2) have "y = x" by (auto dest: inj_onD)
  with y show "device_id x = d" by simp
next
  assume "device_id x = d"
  with assms(2) show "res_id x \<in> res_id ` set (filter_by_device_id table d)"
    by (auto simp: filter_by_device_id_def)
qed

lemma rename_all:
  assumes "distinct (map res_id (reservations s))"
  shows "reservations (rename_loop v d (filter_by_device_id (reservations s) d) s) =
     map (\<lambda>x. if device_id x = d then x\<lparr>device_name := v\<rparr> else x) (reservations s)"
  unfolding rename_loop_reservations
  using same_key_same_device [OF assms] by (intro map_cong) simp_all

lemma set_device_name_frame:
  "map dev_id (set_device_name d v table) = map dev_id table
   \<and> map device_brand (set_device_name d v table) = map device_brand table
   \<and> map device_status (set_device_name d v table) = map device_status table
   \<and> map device_type (set_device_name d v table) = map device_type table
   \<and> map last_use (set_device_name d v table) = map last_use table"
  by (simp add: set_device_name_def comp_def cong: map_cong)

lemma fields_loop_devices:
  "devices (device_fields_loop time_now d form s) = devices s
   \<or> devices (device_fields_loop time_now d form s)
       = set_device_name d (the (df_device_name form)) (devices s)"
  by (simp add: device_fields_loop_def rename_loop_devices flash_def Let_def split: option.splits)

lemma device_update_devices:
  "devices (snd (device_update commit time_now cu arg form s)) = devices s
   \<or> (\<exists>d. devices (snd (device_update commit time_now cu arg form s))
       = set_device_name d (the (df_device_name form)) (devices s))"
proof (cases arg)
  case None
  then show ?thesis by (simp add: device_update_def flash_def)
next
  case (Some d)
  show ?thesis
    using fields_loop_devices [of time_now d form s] Some
    by (auto simp: device_update_def flash_def table_update_item_def Let_def
        split: option.splits outcome.splits)
qed

lemma device_update_frame:
  "map device_brand (devices (snd (device_update commit time_now cu arg form s)))
       = map device_brand (devices s)
   \<and> map device_status (devices (snd (device_update commit time_now cu arg form s)))
       = map device_status (devices s)
   \<and> map device_type (devices (snd (device_update commit time_now cu arg form s)))
       = map device_type (devices s)
   \<and> map last_use (devices (snd (device_update commit time_now cu arg form s)))
       = map last_use (devices s)"
  using device_update_devices [of commit time_now cu arg form s] set_device_name_frame
  by (metis)


lemma fields_loop_no_reservations:
  "filter_by_device_id (reservations s) d = [] \<Longrightarrow>
   devices (device_fields_loop time_now d form s) = devices s
   \<and> reservations (device_fields_loop time_now d form s) = reservations s"
  by (simp add: device_fields_loop_def flash_def Let_def split: option.splits)

lemma fields_loop_rename:
  assumes "given (df_device_name form)" and "filter_by_device_id (reservations s) d \<noteq> []"
    and "distinct (map res_id (reservations s))"
  shows "devices (device_fields_loop time_now d form s)
           = set_device_name d (the (df_device_name form)) (devices s)
         \<and> reservations (device_fields_loop time_now d form s)
           = map (\<lambda>x. if device_id x = d then x\<lparr>device_name := the (df_device_name form)\<rparr> else x)
               (reservations s)"
  using assms rename_all [OF assms(3)]
  by (simp add: device_fields_loop_def flash_def Let_def rename_loop_devices split: option.splits)

text \<open>
  C10.  In the device update of an administrator with a new name: when the device has no
  reservation, the devices and the reservations stay as they are, whatever the commit does,
  and with a commit that returns the request still ends in the redirect of a successful
  update.  When the device has a reservation (primary keys being distinct) and the commit
  returns, every device row with that key and every reservation of the device carries the
  new name, and nothing else changes in the two tables.  For every request, the columns
  \<open>device_brand\<close>, \<open>device_status\<close>, \<open>device_type\<close> and \<open>last_use\<close> of the device table are
  left as they were.
\<close>

theorem device_update_rename:
  "(get_device (devices s) d = Some device \<and> administrator cu
      \<and> df_device_name form = Some v \<and> v \<noteq> []
      \<and> filter_by_device_id (reservations s) d = []
    \<longrightarrow> devices (snd (device_update commit time_now cu (Some d) form s)) = devices s
        \<and> reservations (snd (device_update commit time_now cu (Some d) form s)) = reservations s
        \<and> fst (device_update Returns time_now cu (Some d) form s) = Redirect ''device.home'')
   \<and> (get_device (devices s) d = Some device \<and> administrator cu
      \<and> df_device_name form = Some v \<and> v \<noteq> []
      \<and> filter_by_device_id (reservations s) d \<noteq> []
      \<and> distinct (map res_id (reservations s))
    \<longrightarrow> devices (snd (device_update Returns time_now cu (Some d) form s))
          = map (\<lambda>x. if dev_id x = d then x\<lparr>dev_device_name := v\<rparr> else x) (devices s)
        \<and> reservations (snd (device_update Returns time_now cu (Some d) form s))
          = map (\<lambda>r. if device_id r = d then r\<lparr>device_name := v\<rparr> else r) (reservations s))
   \<and> map device_brand (devices (snd (device_update commit time_now cu arg form s)))
       = map device_brand (devices s)
   \<and> map device_status (devices (snd (device_update commit time_now cu arg form s)))
       = map device_status (devices s)
   \<and> map device_type (devices (snd (device_update commit time_now cu arg form s)))
       = map device_type (devices s)
   \<and> map last_use (devices (snd (device_update commit time_now cu arg form s)))
       = map last_use (devices s)"
proof -
  have none: "devices (snd (device_update commit time_now cu (Some d) form s)) = devices s
        \<and> reservations (snd (device_update commit time_now cu (Some d) form s)) = reservations s
        \<and> fst (device_update Returns time_now cu (Some d) form s) = Redirect ''device.home''"
    if "get_device (devices s) d = Some device" "administrator cu"
       "filter_by_device_id (reservations s) d = []"
    using that fields_loop_no_reservations [OF that(3), of time_now form]
    by (simp add: device_update_def table_update_item_def flash_def Let_def
        split: outcome.splits)
  have some: "devices (snd (device_update Returns time_now cu (Some d) form s))
          = map (\<lambda>x. if dev_id x = d then x\<lparr>dev_device_name := v\<rparr> else x) (devices s)
        \<and> reservations (snd (device_update Returns time_now cu (Some d) form s))
          = map (\<lambda>r. if device_id r = d then r\<lparr>device_name := v\<rparr> else r) (reservations s)"
    if "get_device (devices s) d = Some device" "administrator cu"
       "df_device_name form = Some v" "v \<noteq> []"
       "filter_by_device_id (reservations s) d \<noteq> []"
       "distinct (map res_id (reservations s))"
  proof -
    have g: "given (df_device_name form)" using that(3,4) by (simp add: given_def)
    show ?thesis
      using that(1,2,3) fields_loop_rename [OF g that(5) that(6), of time_now]
      by (simp add: device_update_def table_update_item_def flash_def Let_def
          set_device_name_def)
  qed
  from none some device_update_frame [of commit time_now cu arg form s] show ?thesis by blast
qed

text \<open>
  The administrator renames device 1 to Tablet: nothing happens while the device has no
  reservation, and with Alice's reservation the device and her reservation are renamed,
  while Bob's reservation of device 2 keeps the old name.
\<close>

theorem device_update_rename_witness:
  "devices (snd (device_update Returns 0 (member 3 ''root'' True) (Some 1)
       \<lparr>df_device_name = Some ''Tablet'', df_device_brand = None, df_device_status = None,
        df_device_type = None, df_last_use = None\<rparr>
       (office [booking 2 2 ''bob'' 600 660]))) = [laptop 1, laptop 2]
   \<and> devices (snd (device_update Returns 0 (member 3 ''root'' True) (Some 1)
       \<lparr>df_device_name = Some ''Tablet'', df_device_brand = None, df_device_status = None,
        df_device_type = None, df_last_use = None\<rparr>
       (office [booking 1 1 ''alice'' 600 660, booking 2 2 ''bob'' 600 660])))
     = [(laptop 1)\<lparr>dev_device_name := ''Tablet''\<rparr>, laptop 2]
   \<and> reservations (snd (device_update Returns 0 (member 3 ''root'' True) (Some 1)
       \<lparr>df_device_name = Some ''Tablet'', df_device_brand = None, df_device_status = None,
        df_device_type = None, df_last_use = None\<rparr>
       (office [booking 1 1 ''alice'' 600 660, booking 2 2 ''bob'' 600 660])))
     = [(booking 1 1 ''alice'' 600 660)\<lparr>device_name := ''Tablet''\<rparr>, booking 2 2 ''bob'' 600 660]"
  using
    device_update_rename [where s = "office [booking 2 2 ''bob'' 600 660]" and d = 1
      and device = "laptop 1" and cu = "member 3 ''root'' True" and v = "''Tablet''"
      and commit = Returns and time_now = 0 and arg = "Some 1"
      and form = "\<lparr>df_device_name = Some ''Tablet'', df_device_brand = None,
        df_device_status = None, df_device_type = None, df_last_use = None\<rparr>"]
    device_update_rename [where s = "office [booking 1 1 ''alice'' 600 660, booking 2 2 ''bob'' 600 660]"
      and d = 1 and device = "laptop 1" and cu = "member 3 ''root'' True" and v = "''Tablet''"
      and commit = Returns and time_now = 0 and arg = "Some 1"
      and form = "\<lparr>df_device_name = Some ''Tablet'', df_device_brand = None,
        df_device_status = None, df_device_type = None, df_last_use = None\<rparr>"]
  by (simp add: office_def get_device_def laptop_def member_def booking_def
      filter_by_device_id_def)

subsection \<open>Creating a reservation\<close>

text \<open>
  A create request that gets past the validation and the choice of the device has found
  a device row for the key it hands on, and has changed nothing but the flashed messages.
\<close>

lemma create_device_id_found:
  assumes "create_device_id time_now cu form s = Inr (d, s1)"
  shows "(\<exists>device. get_device (devices s) d = Some device)
         \<and> users s1 = users s \<and> devices s1 = devices s
         \<and> reservations s1 = reservations s \<and> jobs s1 = jobs s"
proof (cases "cf_device_id form")
  case (Some d')
  with assms show ?thesis
    by (auto simp: create_device_id_def Let_def split: prod.splits if_splits option.splits)
next
  case None
  with assms obtain fl' where
    res: "check_availability_of_device_name (devices s) (reservations s) (cf_device_name form)
            (cf_start_time form) (cf_end_time form) (flashes s) = (PyId d, fl')"
    and s1: "s1 = s\<lparr>flashes := fl'\<rparr>"
    by (auto simp: create_device_id_def Let_def
        split: prod.splits if_splits id_or_false.splits)
  from res have "first_available (reservations s)
       (filter_by_device_name (devices s) (cf_device_name form))
       (cf_start_time form) (cf_end_time form) = Some d"
    by (auto simp: check_availability_of_device_name_def Let_def split: if_splits option.splits)
  then obtain x where "x \<in> set (devices s)" "dev_id x = d"
    using first_available_in by (fastforce simp: filter_by_device_name_def)
  then have "get_device (devices s) d \<noteq> None"
    by (auto simp: get_device_def find_None_iff)
  then show ?thesis using s1 by auto
qed

text \<open>
  C7, as the claim states it, fails.  Alice's request for device 1 from 10:00 to 11:00
  passes the validation and the availability check; when the scheduler raises, the request
  ends with that exception, before the reservation is added to the session: nothing is
  created.
\<close>

theorem reservation_create_scheduler_counterexample:
  "create_device_id 0 (member 1 ''alice'' False) (request 1 600 660) (office [])
     = Inr (1, office [])
   \<and> reservation_create (Raises ''scheduler down'') Returns 0 (member 1 ''alice'' False)
       (request 1 600 660) (office []) = Inl (SchedulerError ''scheduler down'')"
  by (simp add: create_device_id_def reservation_create_def request_def office_def member_def
      laptop_def check_start_and_end_time_def check_if_device_is_available_def
      filter_by_device_id_def get_device_def schedule_reservation_notification_def Let_def)

text \<open>
  C7, amended.  For a create request that passes the validation and the availability
  check, the notification is scheduled before the reservation is persisted, and an error
  of the scheduler is not caught: the request ends with it and persists nothing.  When the
  scheduler returns, the reservation is stored with the next key and reported as created if
  the commit returns; if the commit raises, the error is flashed and no row is stored,
  while the job stays scheduled.
\<close>

theorem reservation_create_scheduling:
  assumes "create_device_id time_now cu form s = Inr (d, s1)"
  shows "reservation_create (Raises e) commit time_now cu form s = Inl (SchedulerError e)
   \<and> (\<exists>device js.
        get_device (devices s) d = Some device
        \<and> schedule_reservation_notification Returns cu
             \<lparr>res_id = None, device_id = d, device_name = dev_device_name device,
              username = user_username cu, start_time = cf_start_time form,
              end_time = cf_end_time form, reason = cf_reason form\<rparr> (jobs s) = Inr js
        \<and> reservation_create Returns Returns time_now cu form s =
            Inr (Redirect ''reservation.home'',
                 s1\<lparr>jobs := js,
                    reservations := reservations s @
                      [\<lparr>res_id = Some (next_res_id (reservations s)), device_id = d,
                        device_name = dev_device_name device,
                        username = user_username cu, start_time = cf_start_time form,
                        end_time = cf_end_time form, reason = cf_reason form\<rparr>],
                    flashes := flashes s1 @ [(''Reservation created successfully!'', ''success'')]\<rparr>)
        \<and> reservation_create Returns (Raises e) time_now cu form s =
            Inr (Redirect ''reservation.create'',
                 s1\<lparr>jobs := js,
                    flashes := flashes s1 @ [(''Error creating reservation:  '' @ e, ''error'')]\<rparr>))"
proof -
  from create_device_id_found [OF assms] obtain device where
    dev: "get_device (devices s) d = Some device"
    and same: "devices s1 = devices s" "reservations s1 = reservations s" "jobs s1 = jobs s"
    by blast
  have raise: "reservation_create (Raises e) commit time_now cu form s = Inl (SchedulerError e)"
    using assms dev same
    by (simp add: reservation_create_def schedule_reservation_notification_def Let_def)
  show ?thesis
    using assms dev same raise
    by (simp add: reservation_create_def schedule_reservation_notification_def Let_def
        table_create_item_def flash_def)
qed

theorem reservation_create_scheduling_witness:
  "create_device_id 0 (member 1 ''alice'' False) (request 1 600 660) (office [])
     = Inr (1, office [])
   \<and> reservation_create (Raises ''scheduler down'') (Raises ''disk full'') 0
       (member 1 ''alice'' False) (request 1 600 660) (office [])
     = Inl (SchedulerError ''scheduler down'')
   \<and> reservations (state_after (reservation_create Returns Returns 0 (member 1 ''alice'' False)
       (request 1 600 660) (office [])) (office [])) = [booking 1 1 ''alice'' 600 660]"
proof -
  have pass: "create_device_id 0 (member 1 ''alice'' False) (request 1 600 660) (office [])
     = Inr (1, office [])"
    by (simp add: create_device_id_def request_def office_def member_def
      laptop_def check_start_and_end_time_def check_if_device_is_available_def
      filter_by_device_id_def get_device_def Let_def)
  show ?thesis
    using pass reservation_create_scheduling [OF pass, of "''scheduler down''" "Raises ''disk full''"]
    by (auto simp: state_after_def office_def request_def member_def booking_def laptop_def
        next_res_id_def get_device_def)
qed

subsection \<open>Keys of the notification jobs\<close>

text \<open>
  The id of the job is formatted from the key the reservation object has when the job is
  added; an object without a key gives \<open>notify_user_None\<close>.
\<close>

lemma schedule_reservation_notification_unflushed:
  "res_id r = None \<Longrightarrow>
   schedule_reservation_notification Returns cu r js =
     Inr (add_job \<lparr>job_id = ''notify_user_None'',
                   run_date = start_time r - timedelta_minutes 30,
                   job_recipient = email_address cu, job_reservation = r\<rparr> js)"
  by (simp add: schedule_reservation_notification_def str_id_def)

text \<open>
  C8 fails on the code.  \<open>create\<close> schedules the notification for the new reservation
  object before the object is added and committed, so the object has no key yet and the
  job id is \<open>notify_user_None\<close> for every reservation.  Alice reserves device 1 and then
  Bob reserves device 2: both reservations are stored, with the keys 1 and 2, and the
  scheduler holds one job, Bob's, which has replaced Alice's.
\<close>

theorem reservation_create_replaces_job:
  "map job_id (jobs (state_after (reservation_create Returns Returns 0 (member 1 ''alice'' False)
       (request 1 600 660) (office [])) (office []))) = [''notify_user_None'']
   \<and> map job_recipient (jobs (state_after (reservation_create Returns Returns 0
       (member 1 ''alice'' False) (request 1 600 660) (office [])) (office [])))
      = [''alice@example.org'']
   \<and> map res_id (reservations (state_after (reservation_create Returns Returns 0
       (member 2 ''bob'' False) (request 2 600 660)
       (state_after (reservation_create Returns Returns 0 (member 1 ''alice'' False)
          (request 1 600 660) (office [])) (office [])))
       (office []))) = [Some 1, Some 2]
   \<and> map job_id (jobs (state_after (reservation_create Returns Returns 0
       (member 2 ''bob'' False) (request 2 600 660)
       (state_after (reservation_create Returns Returns 0 (member 1 ''alice'' False)
          (request 1 600 660) (office [])) (office [])))
       (office []))) = [''notify_user_None'']
   \<and> map job_recipient (jobs (state_after (reservation_create Returns Returns 0
       (member 2 ''bob'' False) (request 2 600 660)
       (state_after (reservation_create Returns Returns 0 (member 1 ''alice'' False)
          (request 1 600 660) (office [])) (office [])))
       (office []))) = [''bob@example.org'']"
  by (simp add: create_device_id_def reservation_create_def request_def office_def member_def
      laptop_def check_start_and_end_time_def check_if_device_is_available_def
      filter_by_device_id_def get_device_def schedule_reservation_notification_def Let_def
      state_after_def table_create_item_def flash_def next_res_id_def str_id_def)

subsection \<open>The reservations of a device do not overlap\<close>

lemma first_available_available:
  "first_available rtable ds start_t end_t = Some d \<Longrightarrow>
   check_if_device_is_available rtable d start_t end_t"
  by (induction ds) (auto split: if_splits)

lemma create_device_id_available:
  assumes "create_device_id time_now cu form s = Inr (d, s1)"
  shows "check_if_device_is_available (reservations s) d (cf_start_time form) (cf_end_time form)"
proof (cases "cf_device_id form")
  case (Some d')
  with assms show ?thesis
    by (auto simp: create_device_id_def Let_def split: prod.splits if_splits option.splits)
next
  case None
  with assms obtain fl' where
    "check_availability_of_device_name (devices s) (reservations s) (cf_device_name form)
       (cf_start_time form) (cf_end_time form) (flashes s) = (PyId d, fl')"
    by (auto simp: create_device_id_def Let_def
        split: prod.splits if_splits id_or_false.splits)
  then have "first_available (reservations s)
       (filter_by_device_name (devices s) (cf_device_name form))
       (cf_start_time form) (cf_end_time form) = Some d"
    by (auto simp: check_availability_of_device_name_def Let_def split: if_splits option.splits)
  then show ?thesis by (rule first_available_available)
qed

lemma available_no_overlap:
  assumes "check_if_device_is_available table d start_t end_t"
    and "r \<in> set table" and "device_id n = d" and "start_time n = start_t" and "end_time n = end_t"
  shows "\<not> overlapping r n \<and> \<not> overlapping n r"
proof (cases "device_id r = d")
  case True
  with assms(1,2) have "start_time r > end_t \<or> end_time r < start_t"
    by (auto simp: check_if_device_is_available_def filter_by_device_id_def
        scan_reservations_all list_all_iff)
  with assms(4,5) show ?thesis by (auto simp: overlapping_def)
next
  case False
  with assms(3) show ?thesis by (auto simp: overlapping_def)
qed

lemma has_overlap_snoc:
  "has_overlap (table @ [n]) \<longleftrightarrow>
     has_overlap table \<or> (\<exists>r \<in> set table. overlapping r n \<or> overlapping n r)"
  by (auto simp: has_overlap_def list_ex_iff overlapping_def)

text \<open>
  The create request keeps the reservations free of overlaps: it stores a row only for a
  device that the availability check has reported available for the interval.
\<close>

lemma reservation_create_no_overlap:
  assumes "\<not> has_overlap (reservations s)"
    and "reservation_create sched commit time_now cu form s = Inr (resp, s')"
  shows "\<not> has_overlap (reservations s')"
proof (cases "create_device_id time_now cu form s")
  case (Inl early)
  then have "reservations (snd early) = reservations s"
    by (auto simp: create_device_id_def Let_def flash_def
        split: prod.splits if_splits option.splits id_or_false.splits)
  with Inl assms show ?thesis by (auto simp: reservation_create_def)
next
  case (Inr ds)
  then obtain d s1 where ds: "create_device_id time_now cu form s = Inr (d, s1)"
    by (cases ds) simp
  from create_device_id_found [OF ds] have same: "reservations s1 = reservations s"
    by blast
  have avail: "check_if_device_is_available (reservations s) d
                 (cf_start_time form) (cf_end_time form)"
    using ds by (rule create_device_id_available)
  from assms(2) ds same
  have "reservations s' = reservations s
        \<or> (\<exists>n. reservations s' = reservations s @ [n] \<and> device_id n = d
               \<and> start_time n = cf_start_time form \<and> end_time n = cf_end_time form)"
    by (auto simp: reservation_create_def schedule_reservation_notification_def Let_def
        table_create_item_def flash_def
        split: option.splits outcome.splits sum.splits prod.splits)
  then show ?thesis
    using assms(1) available_no_overlap [OF avail] by (auto simp: has_overlap_snoc)
qed

text \<open>
  C1 fails on the code.  The update request validates new times only against now and
  against each other; it runs the availability check only when a device name or a device
  key is given.  Device 1 is reserved by Alice from 100 to 200 and by Bob from 300 to 400,
  without overlap.  The administrator moves the start of Bob's reservation to 150: the
  update is accepted and committed, and the two reservations of device 1 now overlap.
\<close>

theorem reservation_update_overlap:
  "\<not> has_overlap (reservations
        (office [booking 1 1 ''alice'' 100 200, booking 2 1 ''bob'' 300 400]))
   \<and> reservation_update Returns 0 (member 3 ''root'' True) (Some 2) (move_start 150)
       (office [booking 1 1 ''alice'' 100 200, booking 2 1 ''bob'' 300 400])
     = (Redirect ''reservation.home'',
        (office [booking 1 1 ''alice'' 100 200, booking 2 1 ''bob'' 150 400])
          \<lparr>flashes := [(''Reservation updated successfully!'', ''success'')]\<rparr>)
   \<and> has_overlap [booking 1 1 ''alice'' 100 200, booking 2 1 ''bob'' 150 400]"
  by (simp add: has_overlap_def overlapping_def office_def booking_def member_def
      move_start_def reservation_update_def get_reservation_def update_fields_def
      update_reason_def update_username_def update_times_def update_device_name_def
      update_device_id_def given_def check_start_and_end_time_def table_update_item_def
      flash_def session_table_def Let_def)

end
